theory Spec2Isabelle
  imports Main "HOL-Library.Word"
begin

section \<open>Field descriptors of package fmap\<close>

text \<open>
  A shallow embedding of \<^verbatim>\<open>field.go\<close>: the descriptor of one struct field, its
  offset-based accessors \<^verbatim>\<open>Get\<close>, \<^verbatim>\<open>GetPtr\<close>, \<^verbatim>\<open>Set\<close> and the resolution of
  dotted tag paths along the parent chain, \<^verbatim>\<open>GetTagPath\<close>.
\<close>

subsection \<open>Types of the reflect package\<close>

text \<open>
  \<^verbatim>\<open>reflect.Kind\<close>, in the order of the standard library (\<open>Int_kind\<close> is
  \<^verbatim>\<open>reflect.Int\<close>, \<open>Ptr\<close> is \<^verbatim>\<open>reflect.Pointer\<close>).
\<close>

datatype kind =
    Invalid | Bool
  | Int_kind | Int8 | Int16 | Int32 | Int64
  | Uint | Uint8 | Uint16 | Uint32 | Uint64 | Uintptr
  | Float32 | Float64 | Complex64 | Complex128
  | Array | Chan | Func | Interface | Map | Ptr | Slice | String | Struct
  | UnsafePointer

text \<open>
  \<^verbatim>\<open>reflect.StructTag\<close>. The raw annotation text is read only through
  \<^verbatim>\<open>Lookup\<close>, which scans the \<^verbatim>\<open>key:"value"\<close> pairs from the left and answers with
  the first pair of the key; the tag is kept as the list of these pairs.
\<close>

type_synonym StructTag = "(string \<times> string) list"

definition Lookup :: "StructTag \<Rightarrow> string \<Rightarrow> string option" where
  "Lookup tag key = map_of tag key"

text \<open>
  \<^verbatim>\<open>strings.Split(s, sep)\<close> for a separator of one byte: the pieces of \<open>s\<close>
  between the separators, never an empty list.
\<close>

fun Split :: "string \<Rightarrow> char \<Rightarrow> string list" where
  "Split [] sep = [[]]"
| "Split (c # cs) sep =
     (if c = sep then [] # Split cs sep
      else (case Split cs sep of
              [] \<Rightarrow> [[c]]
            | w # ws \<Rightarrow> (c # w) # ws))"

subsection \<open>Types and values\<close>

datatype ChanDir = RecvDir | SendDir | BothDir

type_synonym addr = "64 word"

text \<open>
  \<^verbatim>\<open>reflect.Type\<close>, with everything by which \<^verbatim>\<open>reflect\<close> tells two types apart.
  \<open>Basic k\<close> is the predeclared type of a basic kind (\<^verbatim>\<open>int\<close>, \<^verbatim>\<open>string\<close>,
  \<^verbatim>\<open>unsafe.Pointer\<close>, ...) and \<open>Named n t\<close> the defined type \<^verbatim>\<open>type n t\<close>, where
  \<open>n\<close> names the declaration with its package. A function type has its parameter
  types, its result types and the flag that says whether the last parameter is variadic
  (\<^verbatim>\<open>func(...int)\<close> has the parameter \<^verbatim>\<open>[]int\<close> with the flag set). A struct type has
  its package path and its fields; a field has a name, a type, the tag text, the offset
  and the flag that says whether it is embedded. An interface type has its methods in
  the order of the runtime, a method being its name, qualified by the package when it is
  not exported, with its signature.
\<close>

datatype rtype =
    Basic kind
  | PtrTo rtype
  | SliceOf rtype
  | ArrayOf nat rtype
  | MapOf rtype rtype
  | ChanOf ChanDir rtype
  | FuncOf "rtype list" "rtype list" bool
  | StructOf string "sfield list"
  | InterfaceOf "string list"
  | Named string rtype
and sfield =
    SField string rtype string addr bool

fun Kind :: "rtype \<Rightarrow> kind" where
  "Kind (Basic k) = k"
| "Kind (PtrTo t) = Ptr"
| "Kind (SliceOf t) = Slice"
| "Kind (ArrayOf n t) = Array"
| "Kind (MapOf k t) = Map"
| "Kind (ChanOf d t) = Chan"
| "Kind (FuncOf ins outs variadic) = Func"
| "Kind (StructOf pkg fs) = Struct"
| "Kind (InterfaceOf ms) = Interface"
| "Kind (Named n t) = Kind t"

text \<open>
  \<^verbatim>\<open>Type.Elem\<close> panics unless the kind is Array, Chan, Map, Pointer or Slice;
  \<open>None\<close> stands for the panic.
\<close>

fun Elem :: "rtype \<Rightarrow> rtype option" where
  "Elem (PtrTo t) = Some t"
| "Elem (SliceOf t) = Some t"
| "Elem (ArrayOf n t) = Some t"
| "Elem (MapOf k t) = Some t"
| "Elem (ChanOf d t) = Some t"
| "Elem (Named n t) = Elem t"
| "Elem t = None"

fun underlying :: "rtype \<Rightarrow> rtype" where
  "underlying (Named n t) = underlying t"
| "underlying t = t"

text \<open>Predeclared and defined types carry a name, type literals do not.\<close>

fun HasName :: "rtype \<Rightarrow> bool" where
  "HasName (Basic k) = True"
| "HasName (Named n t) = True"
| "HasName t = False"

text \<open>
  What a memory location holds, untyped: the bytes of a scalar, the text of a string, an
  address (pointers and the pointer-shaped kinds; 0 is nil), the parts of a composite, or
  the pair of dynamic type and content that an interface value is (\<open>None\<close> is the nil
  interface).
\<close>

datatype data =
    Bytes "8 word list"
  | Str string
  | Ref addr
  | Comp "data list"
  | Iface "(rtype \<times> data) option"

text \<open>A value of type \<^verbatim>\<open>any\<close>: nil, or a dynamic type with its content.\<close>

type_synonym any = "(rtype \<times> data) option"

text \<open>
  Memory: the content stored at each address. Every address counts as allocated: the
  fault of an access outside a live instance is not part of the model, the descriptor and
  the instance corresponding being the caller's part.
\<close>

type_synonym memory = "addr \<Rightarrow> data"

datatype panic =
    UnhandledDefaultCase
  | TypeAssertionError
  | ReflectPanic

subsection \<open>Assignability in reflect\<close>

text \<open>
  \<^verbatim>\<open>haveIdenticalUnderlyingType(T, V, true)\<close>. Types of different kinds are not
  identical; two types of the same basic kind are. For composite kinds \<^verbatim>\<open>reflect\<close>
  compares part by part, and with tags compared the parts that are types have to be the
  same types: the length and element of arrays; the direction and element of channels;
  the numbers of parameters and results together with the variadic flag, and each
  parameter and result, of functions; key and element of maps; the element of pointers
  and slices; the package path and, field by field, name, type, tag, offset and embedded
  flag of structs. That is equality of the underlying types. Two interface types that
  are not the same type count as identical only when both have no methods.
\<close>

definition haveIdenticalUnderlyingType :: "rtype \<Rightarrow> rtype \<Rightarrow> bool" where
  "haveIdenticalUnderlyingType T V =
     (if T = V then True
      else if Kind T \<noteq> Kind V then False
      else if Kind T = Interface
           then underlying T = InterfaceOf [] \<and> underlying V = InterfaceOf []
      else underlying T = underlying V)"

fun ChanDirOf :: "rtype \<Rightarrow> ChanDir option" where
  "ChanDirOf (ChanOf d t) = Some d"
| "ChanDirOf (Named n t) = ChanDirOf t"
| "ChanDirOf t = None"

definition specialChannelAssignability :: "rtype \<Rightarrow> rtype \<Rightarrow> bool" where
  "specialChannelAssignability T V =
     (ChanDirOf V = Some BothDir \<and> (\<not> HasName T \<or> \<not> HasName V) \<and> Elem T = Elem V)"

definition directlyAssignable :: "rtype \<Rightarrow> rtype \<Rightarrow> bool" where
  "directlyAssignable T V =
     (if T = V then True
      else if (HasName T \<and> HasName V) \<or> Kind T \<noteq> Kind V then False
      else if Kind T = Chan \<and> specialChannelAssignability T V then True
      else haveIdenticalUnderlyingType T V)"

text \<open>
  \<^verbatim>\<open>implements(T, V)\<close>. The methods of an interface type are part of the type; the
  methods of any other type come from the method table of the program, \<open>methods\<close>.
\<close>

fun ifaceMethods :: "rtype \<Rightarrow> string list" where
  "ifaceMethods (InterfaceOf ms) = ms"
| "ifaceMethods (Named n t) = ifaceMethods t"
| "ifaceMethods t = []"

definition implements :: "(rtype \<Rightarrow> string list) \<Rightarrow> rtype \<Rightarrow> rtype \<Rightarrow> bool" where
  "implements methods T V =
     (if Kind T \<noteq> Interface then False
      else if ifaceMethods T = [] then True
      else if Kind V = Interface then set (ifaceMethods T) \<subseteq> set (ifaceMethods V)
      else set (ifaceMethods T) \<subseteq> set (methods V))"

subsection \<open>The descriptor\<close>

text \<open>
  \<^verbatim>\<open>field\<close> with the members of the embedded \<^verbatim>\<open>reflect.StructField\<close>. The
  \<^verbatim>\<open>parent\<close> pointer is an index into the table of descriptors, \<open>None\<close> for nil.
\<close>

record field =
  Name :: string
  PkgPath :: string
  Type :: rtype
  Tag :: StructTag
  Offset :: addr
  Index :: "int list"
  Anonymous :: bool
  structPath :: string
  parent :: "nat option"

type_synonym descriptors = "nat \<Rightarrow> field"

definition IsExported :: "field \<Rightarrow> bool" where
  "IsExported f = (PkgPath f = '''')"

subsection \<open>Access by offset\<close>

text \<open>
  \<^verbatim>\<open>getPtr\<close>. The argument \<open>obj\<close> is the data word of the interface value passed
  in, that is the address of the instance; \<^verbatim>\<open>unsafe.Add\<close> is addition of machine
  words.
\<close>

definition getPtr :: "field \<Rightarrow> addr \<Rightarrow> addr" where
  "getPtr f obj = (let confPointer = obj; ptToField = confPointer + Offset f in ptToField)"

text \<open>
  \<^verbatim>\<open>setPtrValue[T]\<close>: the assertion \<^verbatim>\<open>val.(T)\<close> to a type that is not an interface
  holds exactly when \<open>val\<close> is not nil and its dynamic type is \<open>T\<close>; it is evaluated
  before the store. The result is the memory after the call and the panic, if any.
\<close>

definition setPtrValue :: "rtype \<Rightarrow> memory \<Rightarrow> addr \<Rightarrow> any \<Rightarrow> memory \<times> panic option" where
  "setPtrValue T m ptr val =
     (case val of
        None \<Rightarrow> (m, Some TypeAssertionError)
      | Some (V, d) \<Rightarrow>
          if V = T then (m(ptr := d), None) else (m, Some TypeAssertionError))"

text \<open>\<^verbatim>\<open>getPtrValue[T]\<close>: what is stored at \<open>ptr\<close>, read as a \<open>T\<close>.\<close>

definition getPtrValue :: "rtype \<Rightarrow> memory \<Rightarrow> addr \<Rightarrow> any" where
  "getPtrValue T m ptr = Some (T, m ptr)"

text \<open>
  \<^verbatim>\<open>reflect.NewAt(T, ptr).Interface()\<close>: the pointer itself, typed \<^verbatim>\<open>*T\<close>.
\<close>

definition NewAt_Interface :: "rtype \<Rightarrow> addr \<Rightarrow> any" where
  "NewAt_Interface T ptr = Some (PtrTo T, Ref ptr)"

text \<open>
  \<^verbatim>\<open>reflect.NewAt(T, ptr).Elem().Interface()\<close>: a copy of what is stored at
  \<open>ptr\<close>, typed \<open>T\<close>.
\<close>

definition NewAt_Elem_Interface :: "rtype \<Rightarrow> memory \<Rightarrow> addr \<Rightarrow> any" where
  "NewAt_Elem_Interface T m ptr = Some (T, m ptr)"

text \<open>
  \<^verbatim>\<open>dest := reflect.NewAt(T, ptr).Elem(); dest.Set(reflect.ValueOf(val))\<close>.
  \<^verbatim>\<open>ValueOf(nil)\<close> is the zero Value, which \<^verbatim>\<open>Set\<close> refuses. Otherwise
  \<^verbatim>\<open>assignTo\<close> accepts a value that is directly assignable, whose content is
  stored, or one that implements the interface type \<open>T\<close>, which is stored as an interface
  value; anything else panics before the store.
\<close>

definition NewAt_Elem_Set ::
  "(rtype \<Rightarrow> string list) \<Rightarrow> rtype \<Rightarrow> memory \<Rightarrow> addr \<Rightarrow> any \<Rightarrow> memory \<times> panic option" where
  "NewAt_Elem_Set methods T m ptr val =
     (case val of
        None \<Rightarrow> (m, Some ReflectPanic)
      | Some (V, d) \<Rightarrow>
          if directlyAssignable T V then (m(ptr := d), None)
          else if implements methods T V then (m(ptr := Iface (Some (V, d))), None)
          else (m, Some ReflectPanic))"

definition GetPtr :: "field \<Rightarrow> addr \<Rightarrow> any" where
  "GetPtr f obj = NewAt_Interface (Type f) (getPtr f obj)"

text \<open>
  \<^verbatim>\<open>Get\<close>. \<open>Inl\<close> is the panic. \<^verbatim>\<open>f.Type.Elem()\<close> is called on a type of kind
  Ptr only.
\<close>

definition Get :: "field \<Rightarrow> memory \<Rightarrow> addr \<Rightarrow> panic + any" where
  "Get f m obj =
     (let ptrToField = getPtr f obj;
          kind = Kind (Type f);
          isPtr = (kind = Ptr);
          kindE = (if isPtr then map_option Kind (Elem (Type f)) else Some kind)
      in case kindE of
        None \<Rightarrow> Inl ReflectPanic
      | Some kind \<Rightarrow>
      if isPtr then
        (case kind of
            String \<Rightarrow> Inr (getPtrValue (PtrTo (Basic String)) m ptrToField)
          | Int_kind \<Rightarrow> Inr (getPtrValue (PtrTo (Basic Int_kind)) m ptrToField)
          | Int8 \<Rightarrow> Inr (getPtrValue (PtrTo (Basic Int8)) m ptrToField)
          | Int16 \<Rightarrow> Inr (getPtrValue (PtrTo (Basic Int16)) m ptrToField)
          | Int32 \<Rightarrow> Inr (getPtrValue (PtrTo (Basic Int32)) m ptrToField)
          | Int64 \<Rightarrow> Inr (getPtrValue (PtrTo (Basic Int64)) m ptrToField)
          | Uint \<Rightarrow> Inr (getPtrValue (PtrTo (Basic Uint)) m ptrToField)
          | Uint8 \<Rightarrow> Inr (getPtrValue (PtrTo (Basic Uint8)) m ptrToField)
          | Uint16 \<Rightarrow> Inr (getPtrValue (PtrTo (Basic Uint16)) m ptrToField)
          | Uint32 \<Rightarrow> Inr (getPtrValue (PtrTo (Basic Uint32)) m ptrToField)
          | Uint64 \<Rightarrow> Inr (getPtrValue (PtrTo (Basic Uint64)) m ptrToField)
          | Float32 \<Rightarrow> Inr (getPtrValue (PtrTo (Basic Float32)) m ptrToField)
          | Float64 \<Rightarrow> Inr (getPtrValue (PtrTo (Basic Float64)) m ptrToField)
          | Bool \<Rightarrow> Inr (getPtrValue (PtrTo (Basic Bool)) m ptrToField)
          | Struct \<Rightarrow> Inr (NewAt_Elem_Interface (Type f) m ptrToField)
          | Slice \<Rightarrow> Inr (NewAt_Elem_Interface (Type f) m ptrToField)
          | Array \<Rightarrow> Inr (NewAt_Elem_Interface (Type f) m ptrToField)
          | _ \<Rightarrow> Inl UnhandledDefaultCase)
      else
        (case kind of
            String \<Rightarrow> Inr (getPtrValue (Basic String) m ptrToField)
          | Int_kind \<Rightarrow> Inr (getPtrValue (Basic Int_kind) m ptrToField)
          | Int8 \<Rightarrow> Inr (getPtrValue (Basic Int8) m ptrToField)
          | Int16 \<Rightarrow> Inr (getPtrValue (Basic Int16) m ptrToField)
          | Int32 \<Rightarrow> Inr (getPtrValue (Basic Int32) m ptrToField)
          | Int64 \<Rightarrow> Inr (getPtrValue (Basic Int64) m ptrToField)
          | Uint \<Rightarrow> Inr (getPtrValue (Basic Uint) m ptrToField)
          | Uint8 \<Rightarrow> Inr (getPtrValue (Basic Uint8) m ptrToField)
          | Uint16 \<Rightarrow> Inr (getPtrValue (Basic Uint16) m ptrToField)
          | Uint32 \<Rightarrow> Inr (getPtrValue (Basic Uint32) m ptrToField)
          | Uint64 \<Rightarrow> Inr (getPtrValue (Basic Uint64) m ptrToField)
          | Float32 \<Rightarrow> Inr (getPtrValue (Basic Float32) m ptrToField)
          | Float64 \<Rightarrow> Inr (getPtrValue (Basic Float64) m ptrToField)
          | Bool \<Rightarrow> Inr (getPtrValue (Basic Bool) m ptrToField)
          | Struct \<Rightarrow> Inr (NewAt_Elem_Interface (Type f) m ptrToField)
          | Slice \<Rightarrow> Inr (NewAt_Elem_Interface (Type f) m ptrToField)
          | Array \<Rightarrow> Inr (NewAt_Elem_Interface (Type f) m ptrToField)
          | _ \<Rightarrow> Inl UnhandledDefaultCase))"

text \<open>
  \<^verbatim>\<open>Set\<close>: the memory after the call, and the panic if the call panicked. The
  method table \<open>methods\<close> of the program is what \<^verbatim>\<open>reflect\<close> consults in the
  default case.
\<close>

definition Set ::
  "(rtype \<Rightarrow> string list) \<Rightarrow> field \<Rightarrow> memory \<Rightarrow> addr \<Rightarrow> any \<Rightarrow> memory \<times> panic option" where
  "Set methods f m obj val =
     (let ptrToField = getPtr f obj;
          kind = Kind (Type f);
          isPtr = (kind = Ptr);
          kindE = (if isPtr then map_option Kind (Elem (Type f)) else Some kind)
      in case kindE of
        None \<Rightarrow> (m, Some ReflectPanic)
      | Some kind \<Rightarrow>
      if isPtr then
        (case kind of
            String \<Rightarrow> setPtrValue (PtrTo (Basic String)) m ptrToField val
          | Int_kind \<Rightarrow> setPtrValue (PtrTo (Basic Int_kind)) m ptrToField val
          | Int8 \<Rightarrow> setPtrValue (PtrTo (Basic Int8)) m ptrToField val
          | Int16 \<Rightarrow> setPtrValue (PtrTo (Basic Int16)) m ptrToField val
          | Int32 \<Rightarrow> setPtrValue (PtrTo (Basic Int32)) m ptrToField val
          | Int64 \<Rightarrow> setPtrValue (PtrTo (Basic Int64)) m ptrToField val
          | Uint \<Rightarrow> setPtrValue (PtrTo (Basic Uint)) m ptrToField val
          | Uint8 \<Rightarrow> setPtrValue (PtrTo (Basic Uint8)) m ptrToField val
          | Uint16 \<Rightarrow> setPtrValue (PtrTo (Basic Uint16)) m ptrToField val
          | Uint32 \<Rightarrow> setPtrValue (PtrTo (Basic Uint32)) m ptrToField val
          | Uint64 \<Rightarrow> setPtrValue (PtrTo (Basic Uint64)) m ptrToField val
          | Float32 \<Rightarrow> setPtrValue (PtrTo (Basic Float32)) m ptrToField val
          | Float64 \<Rightarrow> setPtrValue (PtrTo (Basic Float64)) m ptrToField val
          | Bool \<Rightarrow> setPtrValue (PtrTo (Basic Bool)) m ptrToField val
          | _ \<Rightarrow> NewAt_Elem_Set methods (Type f) m ptrToField val)
      else
        (case kind of
            String \<Rightarrow> setPtrValue (Basic String) m ptrToField val
          | Int_kind \<Rightarrow> setPtrValue (Basic Int_kind) m ptrToField val
          | Int8 \<Rightarrow> setPtrValue (Basic Int8) m ptrToField val
          | Int16 \<Rightarrow> setPtrValue (Basic Int16) m ptrToField val
          | Int32 \<Rightarrow> setPtrValue (Basic Int32) m ptrToField val
          | Int64 \<Rightarrow> setPtrValue (Basic Int64) m ptrToField val
          | Uint \<Rightarrow> setPtrValue (Basic Uint) m ptrToField val
          | Uint8 \<Rightarrow> setPtrValue (Basic Uint8) m ptrToField val
          | Uint16 \<Rightarrow> setPtrValue (Basic Uint16) m ptrToField val
          | Uint32 \<Rightarrow> setPtrValue (Basic Uint32) m ptrToField val
          | Uint64 \<Rightarrow> setPtrValue (Basic Uint64) m ptrToField val
          | Float32 \<Rightarrow> setPtrValue (Basic Float32) m ptrToField val
          | Float64 \<Rightarrow> setPtrValue (Basic Float64) m ptrToField val
          | Bool \<Rightarrow> setPtrValue (Basic Bool) m ptrToField val
          | _ \<Rightarrow> NewAt_Elem_Set methods (Type f) m ptrToField val))"

subsection \<open>Tag paths\<close>

text \<open>
  \<^verbatim>\<open>GetTagPath\<close> on the descriptor at index \<open>f\<close> of the table \<open>fs\<close>. The recursion
  follows the parent pointers, which the types do not keep from forming a cycle:
  \<open>None\<close> is a call that does not return.
\<close>

partial_function (option) GetTagPath ::
  "descriptors \<Rightarrow> nat \<Rightarrow> string \<Rightarrow> bool \<Rightarrow> string option" where
  "GetTagPath fs f tag ignoreParentTagMissing =
     (let tagPath =
        (case Lookup (Tag (fs f)) tag of
           Some val \<Rightarrow>
             (let vals = Split val (CHR '','')
              in if length vals > 0 \<and> length (vals ! 0) > 0 then vals ! 0 else '''')
         | None \<Rightarrow> '''')
      in if tagPath = '''' then Some tagPath
         else case parent (fs f) of
           None \<Rightarrow> Some tagPath
         | Some p \<Rightarrow>
             Option.bind (GetTagPath fs p tag ignoreParentTagMissing) (\<lambda>parentTag.
               if parentTag = '''' \<and> \<not> ignoreParentTagMissing then Some ''''
               else if parentTag = '''' then Some tagPath
               else Some (parentTag @ ''.'' @ tagPath)))"


subsection \<open>Notions of the specification\<close>

text \<open>The first comma-delimited segment of a tag value.\<close>

definition firstSegment :: "string \<Rightarrow> string" where
  "firstSegment val = takeWhile (\<lambda>c. c \<noteq> CHR '','') val"

text \<open>The tag segment of a field under a tag key: empty when the key is absent.\<close>

definition tagSegment :: "field \<Rightarrow> string \<Rightarrow> string" where
  "tagSegment f tag =
     (case Lookup (Tag f) tag of None \<Rightarrow> '''' | Some val \<Rightarrow> firstSegment val)"

text \<open>The parent chain of the descriptor at \<open>f\<close> reaches nil after at most \<open>n\<close> links.\<close>

fun parentChain :: "nat \<Rightarrow> descriptors \<Rightarrow> nat \<Rightarrow> bool" where
  "parentChain 0 fs f = (parent (fs f) = None)"
| "parentChain (Suc n) fs f =
     (case parent (fs f) of None \<Rightarrow> True | Some p \<Rightarrow> parentChain n fs p)"

text \<open>The closed set of primitive kinds, and the kinds \<^verbatim>\<open>Get\<close> recognises.\<close>

definition primitive :: "kind \<Rightarrow> bool" where
  "primitive k =
     (k \<in> {String, Int_kind, Int8, Int16, Int32, Int64, Uint, Uint8, Uint16, Uint32, Uint64,
            Float32, Float64, Bool})"

definition readable :: "kind \<Rightarrow> bool" where
  "readable k = (primitive k \<or> k \<in> {Struct, Slice, Array})"

text \<open>The kind of a declared type, dereferenced once when the type is a pointer.\<close>

definition derefKind :: "rtype \<Rightarrow> kind option" where
  "derefKind T = (if Kind T = Ptr then map_option Kind (Elem T) else Some (Kind T))"

text \<open>
  The predeclared type of a primitive kind \<open>k\<close>, behind a pointer when the declared type
  \<open>T\<close> is one.
\<close>

definition fastType :: "rtype \<Rightarrow> kind \<Rightarrow> rtype" where
  "fastType T k = (if Kind T = Ptr then PtrTo (Basic k) else Basic k)"

text \<open>
  Assignability of a dynamic type \<open>V\<close> to a declared type \<open>T\<close>, condition by
  condition: the same type; or two types that are not both named, of the same kind, where
  either \<open>T\<close> is a channel type and \<open>V\<close> a bidirectional channel type with the same
  element type, or the underlying types are identical (for interface types: both without
  methods); or an interface type \<open>T\<close> that \<open>V\<close> implements.
\<close>

definition assignableTo :: "(rtype \<Rightarrow> string list) \<Rightarrow> rtype \<Rightarrow> rtype \<Rightarrow> bool" where
  "assignableTo methods T V =
     (V = T \<or>
      (\<not> (HasName T \<and> HasName V) \<and> Kind T = Kind V \<and>
        ((Kind T = Chan \<and> ChanDirOf V = Some BothDir \<and> Elem T = Elem V) \<or>
         (Kind T = Interface \<and> underlying T = InterfaceOf [] \<and> underlying V = InterfaceOf []) \<or>
         (Kind T \<noteq> Interface \<and> underlying T = underlying V))) \<or>
      (Kind T = Interface \<and>
        (ifaceMethods T = [] \<or>
         set (ifaceMethods T) \<subseteq>
           (if Kind V = Interface then set (ifaceMethods V) else set (methods V)))))"

subsection \<open>Sample descriptors and instances\<close>

definition mkField :: "string \<Rightarrow> rtype \<Rightarrow> StructTag \<Rightarrow> addr \<Rightarrow> nat option \<Rightarrow> field" where
  "mkField n T tg off p =
     \<lparr>Name = n, PkgPath = '''', Type = T, Tag = tg, Offset = off, Index = [],
      Anonymous = False, structPath = n, parent = p\<rparr>"

text \<open>Grandparent tagged g at 0, parent tagged p at 1, leaf tagged x at 2.\<close>

definition chainFields :: descriptors where
  "chainFields =
     (\<lambda>i. mkField ''G'' (StructOf [] []) [(''json'', ''g'')] 0 None)
       (1 := mkField ''P'' (StructOf [] []) [(''json'', ''p,omitempty'')] 0 (Some 0),
        2 := mkField ''X'' (Basic String) [(''json'', ''x'')] 0 (Some 1))"

text \<open>An untagged parent at 0, a leaf tagged x at 1.\<close>

definition orphanFields :: descriptors where
  "orphanFields =
     (\<lambda>i. mkField ''P'' (StructOf [] []) [(''yaml'', ''p'')] 0 None)
       (1 := mkField ''X'' (Basic String) [(''json'', ''x'')] 0 (Some 0))"

text \<open>Descriptors that are their own parent: without a segment at 0, tagged x elsewhere.\<close>

definition cyclicFields :: descriptors where
  "cyclicFields =
     (\<lambda>i. mkField ''X'' (Basic String) [(''json'', ''x'')] 0 (Some i))
       (0 := mkField ''E'' (Basic String) [(''json'', '',omitempty'')] 0 (Some 0))"

definition noMethods :: "rtype \<Rightarrow> string list" where
  "noMethods T = []"

definition zeroMemory :: memory where
  "zeroMemory = (\<lambda>a. Bytes [])"

definition pointType :: rtype where
  "pointType =
     StructOf []
       [SField ''X'' (Basic Int_kind) [] 0 False, SField ''Y'' (Basic Int_kind) [] 8 False]"

text \<open>An instance whose field at offset 8 points to a record stored at 8192.\<close>

definition pointMemory :: memory where
  "pointMemory = zeroMemory (4104 := Ref 8192, 8192 := Comp [Bytes [1], Bytes [2]])"

text \<open>Fields of a sample record, whose instance lies at address 4096.\<close>

definition countField :: field where
  "countField = mkField ''Count'' (Basic Int_kind) [] 8 None"

definition labelField :: field where
  "labelField = mkField ''Label'' (PtrTo (Basic String)) [] 16 None"

definition originField :: field where
  "originField = mkField ''Origin'' (PtrTo pointType) [] 8 None"

definition extraField :: field where
  "extraField = mkField ''Extra'' (InterfaceOf []) [] 24 None"

definition idsField :: field where
  "idsField = mkField ''IDs'' (Named ''IDs'' (SliceOf (Basic Int_kind))) [] 32 None"

definition levelField :: field where
  "levelField = mkField ''Level'' (Named ''Level'' (Basic Int_kind)) [] 8 None"

definition indexField :: field where
  "indexField = mkField ''Index'' (MapOf (Basic String) (Basic Int_kind)) [] 40 None"

definition eventsField :: field where
  "eventsField = mkField ''Events'' (ChanOf SendDir (Basic Int_kind)) [] 48 None"

definition handlerField :: field where
  "handlerField =
     mkField ''Handler'' (FuncOf [SliceOf (Basic Int_kind)] [] False) [] 56 None"

definition shapeField :: field where
  "shapeField =
     mkField ''Shape'' (StructOf [] [SField ''Point'' (Named ''Point'' pointType) [] 0 False])
       [] 64 None"

subsection \<open>Resolution of tag paths\<close>

lemma Split_not_Nil: "Split s sep \<noteq> []"
  by (induction s) (auto split: list.splits)

lemma Split_first: "Split s sep ! 0 = takeWhile (\<lambda>c. c \<noteq> sep) s"
proof (induction s)
  case Nil
  show ?case by simp
next
  case (Cons c cs)
  then show ?case
    using Split_not_Nil [of cs sep] by (cases "Split cs sep") auto
qed

lemma own_segment:
  "(case Lookup (Tag f) tag of
      Some val \<Rightarrow>
        (let vals = Split val (CHR '','')
         in if length vals > 0 \<and> length (vals ! 0) > 0 then vals ! 0 else '''')
    | None \<Rightarrow> '''') = tagSegment f tag"
  by (simp add: tagSegment_def firstSegment_def Split_first Split_not_Nil Let_def
      split: option.splits)

lemma GetTagPath_unfold:
  "GetTagPath fs f tag ign =
     (if tagSegment (fs f) tag = '''' then Some ''''
      else case parent (fs f) of
             None \<Rightarrow> Some (tagSegment (fs f) tag)
           | Some p \<Rightarrow>
               Option.bind (GetTagPath fs p tag ign) (\<lambda>parentTag.
                 if parentTag = '''' \<and> \<not> ign then Some ''''
                 else if parentTag = '''' then Some (tagSegment (fs f) tag)
                 else Some (parentTag @ ''.'' @ tagSegment (fs f) tag)))"
  by (subst GetTagPath.simps, subst own_segment) (simp add: Let_def)

lemma GetTagPath_root:
  "parent (fs f) = None \<Longrightarrow> GetTagPath fs f tag ign = Some (tagSegment (fs f) tag)"
  by (subst GetTagPath_unfold) simp

lemma tagSegment_mkField:
  "tagSegment (mkField n T tg off p) tag =
     (case map_of tg tag of None \<Rightarrow> '''' | Some val \<Rightarrow> takeWhile (\<lambda>c. c \<noteq> CHR '','') val)"
  by (simp add: tagSegment_def mkField_def Lookup_def firstSegment_def split: option.splits)

lemma parent_mkField: "parent (mkField n T tg off p) = p"
  by (simp add: mkField_def)

lemma Tag_mkField: "Tag (mkField n T tg off p) = tg"
  by (simp add: mkField_def)

text \<open>A descriptor with a segment that is its own parent: the call does not return.\<close>

lemma GetTagPath_cycle:
  assumes "parent (fs f) = Some f" and "tagSegment (fs f) tag \<noteq> []"
  shows "GetTagPath fs f tag ign = None"
proof (rule ccontr)
  assume "GetTagPath fs f tag ign \<noteq> None"
  then obtain s where s: "GetTagPath fs f tag ign = Some s" by blast
  have "\<not> (parent (fs f) = Some f \<and> tagSegment (fs f) tag \<noteq> [])"
    apply (rule GetTagPath.raw_induct
        [where P = "\<lambda>fs f tag ign y. \<not> (parent (fs f) = Some f \<and> tagSegment (fs f) tag \<noteq> [])",
          OF _ s])
    subgoal premises prems for G fs' f' tag' ign' y
    proof
      assume c: "parent (fs' f') = Some f' \<and> tagSegment (fs' f') tag' \<noteq> []"
      with prems(2) obtain r where "G fs' f' tag' ign' = Some r"
        by (auto simp: own_segment Let_def bind_eq_Some_conv)
      from prems(1) [OF this] c show False by blast
    qed
    done
  with assms show False by blast
qed

text \<open>
  C4. When the tag key is absent from the field's own tag, or the first comma-delimited
  segment of its value is empty, GetTagPath returns the empty string, whatever the
  parent chain (which may even be cyclic) and whatever the flag.
\<close>

theorem GetTagPath_own_tag_missing:
  "Lookup (Tag (fs f)) tag = None \<or>
   (\<exists>val. Lookup (Tag (fs f)) tag = Some val \<and> firstSegment val = '''')
   \<Longrightarrow> GetTagPath fs f tag ign = Some ''''"
  by (subst GetTagPath_unfold) (auto simp: tagSegment_def)

theorem GetTagPath_own_tag_missing_witness:
  "Lookup (Tag (orphanFields 0)) ''json'' = None \<and>
   GetTagPath orphanFields 0 ''json'' True = Some '''' \<and>
   GetTagPath orphanFields 0 ''json'' False = Some '''' \<and>
   Lookup (Tag (cyclicFields 0)) ''json'' = Some '',omitempty'' \<and>
   firstSegment '',omitempty'' = '''' \<and>
   GetTagPath cyclicFields 0 ''json'' True = Some '''' \<and>
   GetTagPath cyclicFields 0 ''json'' False = Some ''''"
proof -
  have a: "Lookup (Tag (orphanFields 0)) ''json'' = None"
    by (simp add: orphanFields_def Tag_mkField Lookup_def)
  have b: "Lookup (Tag (cyclicFields 0)) ''json'' = Some '',omitempty''"
    by (simp add: cyclicFields_def Tag_mkField Lookup_def)
  have c: "firstSegment '',omitempty'' = ''''"
    by (simp add: firstSegment_def)
  from b c have d:
    "Lookup (Tag (cyclicFields 0)) ''json'' = None \<or>
     (\<exists>val. Lookup (Tag (cyclicFields 0)) ''json'' = Some val \<and> firstSegment val = '''')"
    by blast
  show ?thesis
    using a b c GetTagPath_own_tag_missing [of orphanFields 0 "''json''" True]
      GetTagPath_own_tag_missing [of orphanFields 0 "''json''" False]
      d GetTagPath_own_tag_missing [of cyclicFields 0 "''json''" True]
      GetTagPath_own_tag_missing [of cyclicFields 0 "''json''" False]
    by simp
qed

text \<open>
  C5. When the field's own segment is not empty and the tag path of its parent resolves
  to the empty string, GetTagPath returns the empty string if ignoreParentTagMissing is
  false and the field's own segment alone if it is true.
\<close>

theorem GetTagPath_parent_empty:
  assumes "tagSegment (fs f) tag \<noteq> ''''"
    and "parent (fs f) = Some p"
    and "GetTagPath fs p tag ign = Some ''''"
  shows "GetTagPath fs f tag ign = (if ign then Some (tagSegment (fs f) tag) else Some '''')"
  using assms by (subst GetTagPath_unfold) simp

theorem GetTagPath_parent_empty_witness:
  "tagSegment (orphanFields 1) ''json'' = ''x'' \<and>
   parent (orphanFields 1) = Some 0 \<and>
   GetTagPath orphanFields 0 ''json'' False = Some '''' \<and>
   GetTagPath orphanFields 0 ''json'' True = Some '''' \<and>
   GetTagPath orphanFields 1 ''json'' False = Some '''' \<and>
   GetTagPath orphanFields 1 ''json'' True = Some ''x''"
proof -
  have s: "tagSegment (orphanFields 1) ''json'' = ''x''"
    by (simp add: orphanFields_def tagSegment_mkField)
  then have s': "tagSegment (orphanFields 1) ''json'' \<noteq> ''''" by simp
  have p: "parent (orphanFields 1) = Some 0"
    by (simp add: orphanFields_def parent_mkField)
  have "parent (orphanFields 0) = None" "tagSegment (orphanFields 0) ''json'' = ''''"
    by (simp_all add: orphanFields_def parent_mkField tagSegment_mkField)
  then have g: "GetTagPath orphanFields 0 ''json'' ign = Some ''''" for ign
    by (simp add: GetTagPath_root)
  show ?thesis
    using s p g GetTagPath_parent_empty [OF s' p g [of False]]
      GetTagPath_parent_empty [OF s' p g [of True]]
    by simp
qed

text \<open>
  C6. When the field's own segment is not empty and the tag path of its parent resolves
  to a non-empty string, GetTagPath returns the parent path, a dot, and the field's own
  segment. For a leaf with segment x whose parent has segment p and whose grandparent,
  without a parent, has segment g, the result is g.p.x under both values of the flag.
\<close>

theorem GetTagPath_parent_nonempty:
  "(tagSegment (fs f) tag \<noteq> '''' \<and> parent (fs f) = Some p \<and>
    GetTagPath fs p tag ign = Some pp \<and> pp \<noteq> ''''
    \<longrightarrow> GetTagPath fs f tag ign = Some (pp @ ''.'' @ tagSegment (fs f) tag)) \<and>
   (tagSegment (fs x) tag = ''x'' \<and> parent (fs x) = Some y \<and>
    tagSegment (fs y) tag = ''p'' \<and> parent (fs y) = Some z \<and>
    tagSegment (fs z) tag = ''g'' \<and> parent (fs z) = None
    \<longrightarrow> GetTagPath fs x tag ign = Some ''g.p.x'')"
proof (intro conjI impI)
  assume "tagSegment (fs f) tag \<noteq> '''' \<and> parent (fs f) = Some p \<and>
    GetTagPath fs p tag ign = Some pp \<and> pp \<noteq> ''''"
  then show "GetTagPath fs f tag ign = Some (pp @ ''.'' @ tagSegment (fs f) tag)"
    by (subst GetTagPath_unfold) simp
next
  assume a: "tagSegment (fs x) tag = ''x'' \<and> parent (fs x) = Some y \<and>
    tagSegment (fs y) tag = ''p'' \<and> parent (fs y) = Some z \<and>
    tagSegment (fs z) tag = ''g'' \<and> parent (fs z) = None"
  then have "GetTagPath fs z tag ign = Some ''g''"
    by (simp add: GetTagPath_root)
  with a have "GetTagPath fs y tag ign = Some ''g.p''"
    by (subst GetTagPath_unfold) simp
  with a show "GetTagPath fs x tag ign = Some ''g.p.x''"
    by (subst GetTagPath_unfold) simp
qed

theorem GetTagPath_parent_nonempty_witness:
  "tagSegment (chainFields 2) ''json'' = ''x'' \<and> parent (chainFields 2) = Some 1 \<and>
   tagSegment (chainFields 1) ''json'' = ''p'' \<and> parent (chainFields 1) = Some 0 \<and>
   tagSegment (chainFields 0) ''json'' = ''g'' \<and> parent (chainFields 0) = None \<and>
   GetTagPath chainFields 1 ''json'' True = Some ''g.p'' \<and>
   GetTagPath chainFields 2 ''json'' True = Some ''g.p.x'' \<and>
   GetTagPath chainFields 2 ''json'' False = Some ''g.p.x''"
proof -
  have h: "tagSegment (chainFields 2) ''json'' = ''x'' \<and> parent (chainFields 2) = Some 1 \<and>
    tagSegment (chainFields 1) ''json'' = ''p'' \<and> parent (chainFields 1) = Some 0 \<and>
    tagSegment (chainFields 0) ''json'' = ''g'' \<and> parent (chainFields 0) = None"
    by (simp add: chainFields_def tagSegment_mkField parent_mkField)
  have g: "GetTagPath chainFields 0 ''json'' True = Some ''g''"
    using h by (simp add: GetTagPath_root)
  have "GetTagPath chainFields 1 ''json'' True = Some (''g'' @ ''.'' @ ''p'')"
    using h g GetTagPath_parent_nonempty
      [of chainFields 1 "''json''" 0 True "''g''" 2 1 0]
    by simp
  then show ?thesis
    using h GetTagPath_parent_nonempty [of chainFields 1 "''json''" 0 True "''g''" 2 1 0]
      GetTagPath_parent_nonempty [of chainFields 1 "''json''" 0 False "''g''" 2 1 0]
    by simp
qed

text \<open>
  C9. GetTagPath returns for every descriptor whose parent chain is finite: when the
  chain reaches nil after at most n links, the call yields a string. Each recursive call
  is made on the parent, one link closer to the end of the chain.
\<close>

theorem GetTagPath_terminates:
  "parentChain n fs f \<Longrightarrow> \<exists>s. GetTagPath fs f tag ign = Some s"
proof (induction n arbitrary: f)
  case 0
  then show ?case by (simp add: GetTagPath_root)
next
  case (Suc n)
  show ?case
  proof (cases "parent (fs f)")
    case None
    then show ?thesis by (simp add: GetTagPath_root)
  next
    case (Some p)
    with Suc.prems have "parentChain n fs p" by simp
    then obtain s where "GetTagPath fs p tag ign = Some s"
      using Suc.IH by blast
    with Some show ?thesis by (subst GetTagPath_unfold) simp
  qed
qed

theorem GetTagPath_terminates_witness:
  "parentChain (Suc (Suc 0)) chainFields 2 \<and>
   (\<exists>s. GetTagPath chainFields 2 ''json'' False = Some s)"
proof -
  have h: "parentChain (Suc (Suc 0)) chainFields 2"
    by (simp add: chainFields_def parent_mkField)
  show ?thesis
    using h GetTagPath_terminates [OF h, of "''json''" False] by simp
qed

subsection \<open>Get, GetPtr and Set\<close>

lemma Type_mkField: "Type (mkField n T tg off p) = T"
  by (simp add: mkField_def)

lemma Offset_mkField: "Offset (mkField n T tg off p) = off"
  by (simp add: mkField_def)

lemma getPtr_eq: "getPtr f obj = obj + Offset f"
  by (simp add: getPtr_def)

lemma Get_typed:
  "derefKind (Type f) = Some k \<Longrightarrow> primitive k \<Longrightarrow>
   Get f m obj = Inr (Some (fastType (Type f) k, m (getPtr f obj)))"
  by (cases k)
    (auto simp: Get_def derefKind_def primitive_def fastType_def getPtrValue_def Let_def
      split: if_splits)

lemma Get_reinterpreted:
  "derefKind (Type f) = Some k \<Longrightarrow> k \<in> {Struct, Slice, Array} \<Longrightarrow>
   Get f m obj = Inr (Some (Type f, m (getPtr f obj)))"
  by (cases k)
    (auto simp: Get_def derefKind_def NewAt_Elem_Interface_def Let_def split: if_splits)

lemma Get_default_case:
  "derefKind (Type f) = Some k \<Longrightarrow> \<not> readable k \<Longrightarrow>
   Get f m obj = Inl UnhandledDefaultCase"
  by (cases k)
    (auto simp: Get_def derefKind_def primitive_def readable_def Let_def split: if_splits)

lemma Set_typed:
  "derefKind (Type f) = Some k \<Longrightarrow> primitive k \<Longrightarrow>
   Set methods f m obj val = setPtrValue (fastType (Type f) k) m (getPtr f obj) val"
  by (cases k)
    (auto simp: Set_def derefKind_def primitive_def fastType_def Let_def split: if_splits)

lemma Set_generic:
  "derefKind (Type f) = Some k \<Longrightarrow> \<not> primitive k \<Longrightarrow>
   Set methods f m obj val = NewAt_Elem_Set methods (Type f) m (getPtr f obj) val"
  by (cases k)
    (auto simp: Set_def derefKind_def primitive_def Let_def split: if_splits)

lemma derefKind_declared:
  "primitive k \<Longrightarrow> T = Basic k \<or> T = PtrTo (Basic k) \<Longrightarrow>
   derefKind T = Some k \<and> fastType T k = T"
  by (auto simp: derefKind_def fastType_def primitive_def)

text \<open>
  C1. For a field declared with the predeclared type of a primitive kind, or with the
  pointer to it, and a value of exactly that type, Set succeeds and a following Get on
  the instance returns that value.
\<close>

theorem Set_Get_roundtrip:
  assumes "primitive k" and "Type f = Basic k \<or> Type f = PtrTo (Basic k)"
  shows "snd (Set methods f m obj (Some (Type f, d))) = None \<and>
         Get f (fst (Set methods f m obj (Some (Type f, d)))) obj = Inr (Some (Type f, d))"
proof -
  from assms have k: "derefKind (Type f) = Some k" and T: "fastType (Type f) k = Type f"
    using derefKind_declared [of k "Type f"] by simp_all
  have "Set methods f m obj (Some (Type f, d)) = (m(getPtr f obj := d), None)"
    using Set_typed [OF k assms(1)] T by (simp add: setPtrValue_def)
  then show ?thesis
    using Get_typed [OF k assms(1)] T by simp
qed

theorem Set_Get_roundtrip_witness:
  "primitive Int_kind \<and> Type countField = Basic Int_kind \<and>
   Get countField (fst (Set noMethods countField zeroMemory 4096
     (Some (Basic Int_kind, Bytes [42])))) 4096 = Inr (Some (Basic Int_kind, Bytes [42])) \<and>
   primitive String \<and> Type labelField = PtrTo (Basic String) \<and>
   Get labelField (fst (Set noMethods labelField zeroMemory 4096
     (Some (PtrTo (Basic String), Ref 8192)))) 4096 = Inr (Some (PtrTo (Basic String), Ref 8192))"
proof -
  have a: "primitive Int_kind" "primitive String"
    by (simp_all add: primitive_def)
  have b: "Type countField = Basic Int_kind" "Type labelField = PtrTo (Basic String)"
    by (simp_all add: countField_def labelField_def Type_mkField)
  show ?thesis
    using a b
      Set_Get_roundtrip [of Int_kind countField noMethods zeroMemory 4096 "Bytes [42]"]
      Set_Get_roundtrip [of String labelField noMethods zeroMemory 4096 "Ref 8192"]
    by simp
qed

text \<open>
  C3. When the kind of the field, dereferenced once if the declared type is a pointer, is
  outside string, the signed and unsigned integers, float32, float64, bool, struct,
  slice and array, Get panics with "unhandled default case" and returns no value; when
  the kind is inside that set, Get returns a value.
\<close>

theorem Get_unsupported_kind:
  assumes "derefKind (Type f) = Some k"
  shows "(\<not> readable k \<longrightarrow> Get f m obj = Inl UnhandledDefaultCase) \<and>
         (readable k \<longrightarrow> (\<exists>v. Get f m obj = Inr v))"
  using assms Get_default_case [of f k m obj] Get_typed [of f k m obj]
    Get_reinterpreted [of f k m obj]
  by (auto simp: readable_def)

theorem Get_unsupported_kind_witness:
  "derefKind (Type indexField) = Some Map \<and> \<not> readable Map \<and>
   Get indexField zeroMemory 4096 = Inl UnhandledDefaultCase \<and>
   derefKind (Type originField) = Some Struct \<and> readable Struct \<and>
   (\<exists>v. Get originField zeroMemory 4096 = Inr v)"
proof -
  have a: "derefKind (Type indexField) = Some Map"
    by (simp add: indexField_def Type_mkField derefKind_def)
  have b: "derefKind (Type originField) = Some Struct"
    by (simp add: originField_def Type_mkField derefKind_def pointType_def)
  have c: "\<not> readable Map" "readable Struct"
    by (simp_all add: readable_def primitive_def)
  show ?thesis
    using a b c Get_unsupported_kind [OF a, of zeroMemory 4096]
      Get_unsupported_kind [OF b, of zeroMemory 4096]
    by simp
qed

text \<open>
  C7, as amended. For a field whose declared type is a pointer to a record, sequence or
  array, Get reads the field's own location at the declared pointer type: it returns the
  stored pointer, typed as declared, and does not read the composite it points to.
\<close>

theorem Get_pointer_to_composite:
  assumes "Kind (Type f) = Ptr" and "Elem (Type f) = Some e"
    and "Kind e \<in> {Struct, Slice, Array}"
  shows "Get f m obj = Inr (Some (Type f, m (obj + Offset f)))"
proof -
  from assms have "derefKind (Type f) = Some (Kind e)"
    by (simp add: derefKind_def)
  from Get_reinterpreted [OF this assms(3)] show ?thesis
    by (simp add: getPtr_eq)
qed

theorem Get_pointer_to_composite_witness:
  "Kind (Type originField) = Ptr \<and> Elem (Type originField) = Some pointType \<and>
   Kind pointType \<in> {Struct, Slice, Array} \<and>
   Get originField pointMemory 4096 = Inr (Some (PtrTo pointType, Ref 8192))"
proof -
  have a: "Kind (Type originField) = Ptr" "Elem (Type originField) = Some pointType"
    "Kind pointType \<in> {Struct, Slice, Array}"
    by (simp_all add: originField_def Type_mkField pointType_def)
  show ?thesis
    using a Get_pointer_to_composite [OF a, of pointMemory 4096]
    by (simp add: originField_def Type_mkField Offset_mkField pointMemory_def)
qed

text \<open>
  C7, as stated, fails: on a field of type pointer to record, Get returns the pointer of
  the declared pointer type, not a copy of the record typed as the record, and the
  result does not change when the record pointed to does.
\<close>

theorem Get_pointer_to_composite_counterexample:
  "Kind (Type originField) = Ptr \<and> Elem (Type originField) = Some pointType \<and>
   Kind pointType = Struct \<and>
   pointMemory (4096 + Offset originField) = Ref 8192 \<and>
   pointMemory 8192 = Comp [Bytes [1], Bytes [2]] \<and>
   Get originField pointMemory 4096 = Inr (Some (PtrTo pointType, Ref 8192)) \<and>
   Get originField pointMemory 4096 \<noteq> Inr (Some (pointType, Comp [Bytes [1], Bytes [2]])) \<and>
   Get originField (pointMemory (8192 := Comp [])) 4096 = Get originField pointMemory 4096"
  by (simp add: originField_def Type_mkField Offset_mkField pointMemory_def pointType_def
      Get_def getPtr_def NewAt_Elem_Interface_def)

text \<open>
  C8. For a field of any type, GetPtr returns the pointer to the field's storage, the
  instance address plus the field's offset, which is the address Get and Set use; after
  a store through that pointer, Get on the instance yields the stored content.
\<close>

theorem GetPtr_reference:
  "GetPtr f obj = Some (PtrTo (Type f), Ref (obj + Offset f)) \<and>
   getPtr f obj = obj + Offset f \<and>
   (\<forall>k. derefKind (Type f) = Some k \<and> readable k \<longrightarrow>
      (\<exists>T. Get f (m(obj + Offset f := d)) obj = Inr (Some (T, d))))"
proof (intro conjI allI impI)
  show "GetPtr f obj = Some (PtrTo (Type f), Ref (obj + Offset f))"
    by (simp add: GetPtr_def NewAt_Interface_def getPtr_def)
  show "getPtr f obj = obj + Offset f"
    by (simp add: getPtr_def)
next
  fix k
  assume a: "derefKind (Type f) = Some k \<and> readable k"
  then consider "primitive k" | "k \<in> {Struct, Slice, Array}"
    by (auto simp: readable_def)
  then show "\<exists>T. Get f (m(obj + Offset f := d)) obj = Inr (Some (T, d))"
  proof cases
    case 1
    with a show ?thesis by (simp add: Get_typed getPtr_eq)
  next
    case 2
    with a show ?thesis by (simp add: Get_reinterpreted getPtr_eq)
  qed
qed

theorem GetPtr_reference_witness:
  "GetPtr indexField 4096 = Some (PtrTo (MapOf (Basic String) (Basic Int_kind)), Ref 4136) \<and>
   GetPtr countField 4096 = Some (PtrTo (Basic Int_kind), Ref 4104) \<and>
   derefKind (Type countField) = Some Int_kind \<and> readable Int_kind \<and>
   Get countField (zeroMemory (4104 := Bytes [7])) 4096 = Inr (Some (Basic Int_kind, Bytes [7]))"
proof -
  have a: "derefKind (Type countField) = Some Int_kind \<and> readable Int_kind"
    by (simp add: countField_def Type_mkField derefKind_def readable_def primitive_def)
  have b: "Get countField (zeroMemory (4104 := Bytes [7])) 4096 =
      Inr (Some (Basic Int_kind, Bytes [7]))"
    by (simp add: countField_def mkField_def Get_def getPtr_def getPtrValue_def)
  show ?thesis
    using a b GetPtr_reference [of indexField 4096 zeroMemory "Bytes [7]"]
      GetPtr_reference [of countField 4096 zeroMemory "Bytes [7]"]
    by (simp add: countField_def indexField_def Type_mkField Offset_mkField)
qed

lemma assignableTo_reflect:
  "assignableTo methods T V \<longleftrightarrow> directlyAssignable T V \<or> implements methods T V"
  by (auto simp: assignableTo_def directlyAssignable_def implements_def
      specialChannelAssignability_def haveIdenticalUnderlyingType_def)

text \<open>
  C2, as amended. On a field whose kind falls through to the generic fallback, Set
  succeeds exactly when the value is not nil and its dynamic type V is assignable to the
  declared type T as reflect decides it: V is T; or T and V are not both named, have the
  same kind, and either T is a channel type and V a bidirectional channel type with the
  same element type, or their underlying types are identical (for interface types: both
  without methods); or T is an interface type that V implements. A value whose dynamic
  type is the declared type is stored. Every failure is a panic of reflect that leaves
  the memory as it was.
\<close>

theorem Set_fallback_assignable:
  assumes "derefKind (Type f) = Some k" and "\<not> primitive k"
  shows "(snd (Set methods f m obj val) = None \<longleftrightarrow>
           (\<exists>V d. val = Some (V, d) \<and> assignableTo methods (Type f) V)) \<and>
         (snd (Set methods f m obj val) \<noteq> None \<longrightarrow>
            Set methods f m obj val = (m, Some ReflectPanic)) \<and>
         (\<forall>d. val = Some (Type f, d) \<longrightarrow>
            Set methods f m obj val = (m(obj + Offset f := d), None))"
proof -
  have s: "Set methods f m obj val = NewAt_Elem_Set methods (Type f) m (obj + Offset f) val"
    using Set_generic [OF assms] by (simp add: getPtr_eq)
  show ?thesis
  proof (cases val)
    case None
    with s show ?thesis by (simp add: NewAt_Elem_Set_def)
  next
    case (Some p)
    obtain V d where "p = (V, d)" by (cases p)
    with Some s have
      "Set methods f m obj val =
         (if directlyAssignable (Type f) V then (m(obj + Offset f := d), None)
          else if implements methods (Type f) V
               then (m(obj + Offset f := Iface (Some (V, d))), None)
          else (m, Some ReflectPanic))"
      and v: "val = Some (V, d)"
      by (simp_all add: NewAt_Elem_Set_def)
    moreover have "directlyAssignable (Type f) (Type f)"
      by (simp add: directlyAssignable_def)
    ultimately show ?thesis
      using assignableTo_reflect [of methods "Type f" V] by auto
  qed
qed

theorem Set_fallback_assignable_witness:
  "derefKind (Type idsField) = Some Slice \<and> \<not> primitive Slice \<and>
   Set noMethods idsField zeroMemory 4096 (Some (Type idsField, Comp [Bytes [1]])) =
     (zeroMemory (4128 := Comp [Bytes [1]]), None) \<and>
   Set noMethods idsField zeroMemory 4096 (Some (Basic String, Str ''a'')) =
     (zeroMemory, Some ReflectPanic) \<and>
   derefKind (Type eventsField) = Some Chan \<and> \<not> primitive Chan \<and>
   assignableTo noMethods (Type eventsField) (ChanOf BothDir (Basic Int_kind)) \<and>
   snd (Set noMethods eventsField zeroMemory 4096
     (Some (ChanOf BothDir (Basic Int_kind), Ref 8192))) = None \<and>
   derefKind (Type handlerField) = Some Func \<and> \<not> primitive Func \<and>
   \<not> assignableTo noMethods (Type handlerField) (FuncOf [SliceOf (Basic Int_kind)] [] True) \<and>
   Set noMethods handlerField zeroMemory 4096
     (Some (FuncOf [SliceOf (Basic Int_kind)] [] True, Ref 8192)) =
     (zeroMemory, Some ReflectPanic) \<and>
   derefKind (Type shapeField) = Some Struct \<and> \<not> primitive Struct \<and>
   \<not> assignableTo noMethods (Type shapeField)
     (StructOf [] [SField ''Point'' (Named ''Point'' pointType) [] 0 True]) \<and>
   Set noMethods shapeField zeroMemory 4096
     (Some (StructOf [] [SField ''Point'' (Named ''Point'' pointType) [] 0 True], Comp [])) =
     (zeroMemory, Some ReflectPanic)"
proof -
  have a: "derefKind (Type idsField) = Some Slice" "\<not> primitive Slice"
    by (simp_all add: idsField_def Type_mkField derefKind_def primitive_def)
  have b: "\<not> assignableTo noMethods (Type idsField) (Basic String)"
    by (simp add: idsField_def Type_mkField assignableTo_def)
  have c: "derefKind (Type eventsField) = Some Chan" "\<not> primitive Chan"
    by (simp_all add: eventsField_def Type_mkField derefKind_def primitive_def)
  have d: "assignableTo noMethods (Type eventsField) (ChanOf BothDir (Basic Int_kind))"
    by (simp add: eventsField_def Type_mkField assignableTo_def)
  have e: "derefKind (Type handlerField) = Some Func" "\<not> primitive Func"
    by (simp_all add: handlerField_def Type_mkField derefKind_def primitive_def)
  have g: "\<not> assignableTo noMethods (Type handlerField)
      (FuncOf [SliceOf (Basic Int_kind)] [] True)"
    by (simp add: handlerField_def Type_mkField assignableTo_def)
  have h: "derefKind (Type shapeField) = Some Struct" "\<not> primitive Struct"
    by (simp_all add: shapeField_def Type_mkField derefKind_def primitive_def)
  have i: "\<not> assignableTo noMethods (Type shapeField)
      (StructOf [] [SField ''Point'' (Named ''Point'' pointType) [] 0 True])"
    by (simp add: shapeField_def Type_mkField assignableTo_def)
  show ?thesis
    using a b c d e g h i
      Set_fallback_assignable [OF a, of noMethods zeroMemory 4096
        "Some (Type idsField, Comp [Bytes [1]])"]
      Set_fallback_assignable [OF a, of noMethods zeroMemory 4096
        "Some (Basic String, Str ''a'')"]
      Set_fallback_assignable [OF c, of noMethods zeroMemory 4096
        "Some (ChanOf BothDir (Basic Int_kind), Ref 8192)"]
      Set_fallback_assignable [OF e, of noMethods zeroMemory 4096
        "Some (FuncOf [SliceOf (Basic Int_kind)] [] True, Ref 8192)"]
      Set_fallback_assignable [OF h, of noMethods zeroMemory 4096
        "Some (StructOf [] [SField ''Point'' (Named ''Point'' pointType) [] 0 True], Comp [])"]
    by (simp add: idsField_def Offset_mkField)
qed

text \<open>
  C2, as stated, fails: a field of the defined slice type IDs takes a value of the
  unnamed slice type, and a field of the empty interface type takes an int, though the
  dynamic type of the value is not the declared type in either case.
\<close>

theorem Set_fallback_counterexample:
  "derefKind (Type idsField) = Some Slice \<and> \<not> primitive Slice \<and>
   SliceOf (Basic Int_kind) \<noteq> Type idsField \<and>
   Set noMethods idsField zeroMemory 4096 (Some (SliceOf (Basic Int_kind), Comp [Bytes [1]])) =
     (zeroMemory (4096 + Offset idsField := Comp [Bytes [1]]), None) \<and>
   derefKind (Type extraField) = Some Interface \<and> \<not> primitive Interface \<and>
   Basic Int_kind \<noteq> Type extraField \<and>
   Set noMethods extraField zeroMemory 4096 (Some (Basic Int_kind, Bytes [5])) =
     (zeroMemory (4096 + Offset extraField := Iface (Some (Basic Int_kind, Bytes [5]))), None)"
  by (simp add: idsField_def extraField_def mkField_def derefKind_def primitive_def Set_def
      getPtr_def NewAt_Elem_Set_def directlyAssignable_def implements_def
      haveIdenticalUnderlyingType_def)

text \<open>
  C10, as amended. On a field whose kind, dereferenced once for a pointer, is primitive,
  Set asserts the value to the predeclared type of that kind (behind a pointer for a
  pointer field), not to the declared type: it panics and writes nothing when the value
  is nil or of any other dynamic type, and stores the value otherwise.
\<close>

theorem Set_fast_path_strict:
  assumes "derefKind (Type f) = Some k" and "primitive k"
  shows "((\<forall>d. val \<noteq> Some (fastType (Type f) k, d)) \<longrightarrow>
            Set methods f m obj val = (m, Some TypeAssertionError)) \<and>
         (\<forall>d. val = Some (fastType (Type f) k, d) \<longrightarrow>
            Set methods f m obj val = (m(obj + Offset f := d), None))"
  using Set_typed [OF assms, of methods m obj val]
  by (auto simp: setPtrValue_def getPtr_eq split: option.splits)

theorem Set_fast_path_strict_witness:
  "derefKind (Type countField) = Some Int_kind \<and> primitive Int_kind \<and>
   fastType (Type countField) Int_kind = Basic Int_kind \<and>
   Set noMethods countField zeroMemory 4096 (Some (Basic Int64, Bytes [1])) =
     (zeroMemory, Some TypeAssertionError) \<and>
   Set noMethods countField zeroMemory 4096 None = (zeroMemory, Some TypeAssertionError) \<and>
   Set noMethods countField zeroMemory 4096 (Some (Basic Int_kind, Bytes [1])) =
     (zeroMemory (4104 := Bytes [1]), None)"
proof -
  have a: "derefKind (Type countField) = Some Int_kind" "primitive Int_kind"
    by (simp_all add: countField_def Type_mkField derefKind_def primitive_def)
  have b: "fastType (Type countField) Int_kind = Basic Int_kind"
    by (simp add: countField_def Type_mkField fastType_def)
  show ?thesis
    using a b
      Set_fast_path_strict [OF a, of "Some (Basic Int64, Bytes [1])" noMethods zeroMemory 4096]
      Set_fast_path_strict [OF a, of None noMethods zeroMemory 4096]
      Set_fast_path_strict [OF a, of "Some (Basic Int_kind, Bytes [1])" noMethods zeroMemory 4096]
    by (simp add: countField_def Offset_mkField)
qed

text \<open>
  C10, as stated, fails: on a field of the defined type Level, of kind Int, Set stores a
  value of dynamic type int, which is not the declared type, and refuses a value of the
  declared type.
\<close>

theorem Set_fast_path_counterexample:
  "derefKind (Type levelField) = Some Int_kind \<and> primitive Int_kind \<and>
   Basic Int_kind \<noteq> Type levelField \<and>
   Set noMethods levelField zeroMemory 4096 (Some (Basic Int_kind, Bytes [3])) =
     (zeroMemory (4096 + Offset levelField := Bytes [3]), None) \<and>
   Set noMethods levelField zeroMemory 4096 (Some (Type levelField, Bytes [3])) =
     (zeroMemory, Some TypeAssertionError)"
  by (simp add: levelField_def mkField_def derefKind_def primitive_def Set_def getPtr_def
      setPtrValue_def)

end
